theory Spec2Isabelle
  imports Main "HOL-Library.Multiset"
begin

section \<open>Data model\<close>

text \<open>
  The repository holds two implementations of the venue booking component.
  Variant A is \<^verbatim>\<open>src/components/VenueBookingSystem.tsx\<close> (status values
  \<^verbatim>\<open>'Pending' | 'Approved' | 'Cancelled'\<close>, bookings mirrored to local storage),
  variant B is the second component file (status values
  \<^verbatim>\<open>'pending' | 'approved' | 'rejected'\<close>, approve, reject and delete actions).
  Both declare interfaces \<^verbatim>\<open>Venue\<close> and \<^verbatim>\<open>Booking\<close> with fields of the same
  names, so every field carries the variant as a suffix: \<^verbatim>\<open>booking.venueId\<close> of
  variant A is \<open>venueIdA\<close>, of variant B \<open>venueIdB\<close>. JavaScript strings are
  modelled as \<^typ>\<open>string\<close>, the falsy string being the empty one.
\<close>

subsection \<open>Variant A\<close>

datatype StatusA = Pending | Approved | Cancelled

record BookingA =
  idA :: string
  venueIdA :: string
  venueNameA :: string
  dateA :: string
  timeSlotA :: string
  bookerNameA :: string
  departmentA :: string
  purposeA :: string
  statusA :: StatusA
  createdAtA :: string

record VenueA =
  venue_idA :: string
  venue_nameA :: string
  venue_descriptionA :: string
  venue_capacityA :: string
  venue_locationA :: string
  venue_featuresA :: "string list"

text \<open>The object held by \<^verbatim>\<open>useState({bookerName, department, purpose})\<close>.\<close>

record BookingFormA =
  form_bookerName :: string
  form_department :: string
  form_purpose :: string

subsection \<open>Variant B\<close>

datatype StatusB = pending | approved | rejected

datatype VenueTypeB = classroom | auditorium | lab | conference | outdoor

record BookingB =
  idB :: string
  venueIdB :: string
  venueNameB :: string
  dateB :: string
  timeSlotB :: string
  purposeB :: string
  bookedByB :: string
  statusB :: StatusB
  attendeesB :: int
  requirementsB :: string
  contactEmailB :: string
  departmentB :: string

record VenueB =
  venue_idB :: string
  venue_nameB :: string
  venue_capacityB :: int
  venue_locationB :: string
  venue_amenitiesB :: "string list"
  venue_imageB :: string
  venue_typeB :: VenueTypeB

record BookingFormData =
  data_purpose :: string
  data_attendees :: int
  data_requirements :: string
  data_contactEmail :: string
  data_department :: string

datatype UserType = faculty | hod

record User =
  username :: string
  userType :: UserType

section \<open>Conflict checker\<close>

text \<open>
  \<^verbatim>\<open>Array.prototype.some\<close>: the elements are tested from the first on, and the scan
  stops at the first one the callback accepts.
\<close>

fun array_some :: "('a \<Rightarrow> bool) \<Rightarrow> 'a list \<Rightarrow> bool" where
  "array_some p [] = False"
| "array_some p (x # xs) = (if p x then True else array_some p xs)"

definition isTimeSlotBookedA :: "BookingA list \<Rightarrow> string \<Rightarrow> string \<Rightarrow> string \<Rightarrow> bool" where
  "isTimeSlotBookedA bookings venueId date timeSlot =
     array_some (\<lambda>booking.
        venueIdA booking = venueId \<and>
        dateA booking = date \<and>
        timeSlotA booking = timeSlot \<and>
        statusA booking \<noteq> Cancelled) bookings"

definition isTimeSlotBookedB :: "BookingB list \<Rightarrow> string \<Rightarrow> string \<Rightarrow> string \<Rightarrow> bool" where
  "isTimeSlotBookedB bookings venueId date timeSlot =
     array_some (\<lambda>booking.
        venueIdB booking = venueId \<and>
        dateB booking = date \<and>
        timeSlotB booking = timeSlot \<and>
        statusB booking \<noteq> rejected) bookings"

section \<open>Variant A: component state and handlers\<close>

text \<open>
  The \<^verbatim>\<open>useState\<close> cells the handlers read and write. \<^verbatim>\<open>activeTab\<close> and
  \<^verbatim>\<open>weekDates\<close> are left out: no handler below reads or writes them. The calls of
  \<^verbatim>\<open>toast\<close> are kept as the list of the titles shown so far.
\<close>

record StateA =
  selectedVenueA :: "VenueA option"
  selectedDateA :: string
  selectedTimeSlotA :: string
  bookingsA :: "BookingA list"
  showBookingFormA :: bool
  bookingFormA :: BookingFormA
  toastsA :: "string list"

definition MOCK_USER_name :: string where
  "MOCK_USER_name = ''Dr. Rajesh Kumar''"

definition MOCK_USER_department :: string where
  "MOCK_USER_department = ''Computer Science''"

definition initialStateA :: StateA where
  "initialStateA =
     \<lparr> selectedVenueA = None, selectedDateA = [], selectedTimeSlotA = [],
       bookingsA = [], showBookingFormA = False,
       bookingFormA = \<lparr> form_bookerName = MOCK_USER_name,
                        form_department = MOCK_USER_department,
                        form_purpose = [] \<rparr>,
       toastsA = [] \<rparr>"

text \<open>
  \<^verbatim>\<open>String.prototype.trim\<close> on the white space and line terminators of ASCII
  (TAB, LF, VT, FF, CR, SP); the Unicode spaces beyond ASCII are not modelled.
\<close>

definition isWhiteSpace :: "char \<Rightarrow> bool" where
  "isWhiteSpace c \<longleftrightarrow> c \<in> {CHR 0x09, CHR 0x0A, CHR 0x0B, CHR 0x0C, CHR 0x0D, CHR '' ''}"

definition trim :: "string \<Rightarrow> string" where
  "trim s = rev (dropWhile isWhiteSpace (rev (dropWhile isWhiteSpace s)))"

definition toast :: "string \<Rightarrow> StateA \<Rightarrow> StateA" where
  "toast title st = st\<lparr>toastsA := toastsA st @ [title]\<rparr>"

definition handleVenueSelect :: "VenueA \<Rightarrow> StateA \<Rightarrow> StateA" where
  "handleVenueSelect venue st =
     st\<lparr>selectedVenueA := Some venue, selectedDateA := [],
        selectedTimeSlotA := [], showBookingFormA := False\<rparr>"

text \<open>\<open>dateStr\<close> is \<^verbatim>\<open>date.toISOString().split('T')[0]\<close> of the day clicked.\<close>

definition handleDateSelect :: "string \<Rightarrow> StateA \<Rightarrow> StateA" where
  "handleDateSelect dateStr st =
     st\<lparr>selectedDateA := dateStr, selectedTimeSlotA := [], showBookingFormA := False\<rparr>"

definition handleTimeSlotSelect :: "string \<Rightarrow> StateA \<Rightarrow> StateA" where
  "handleTimeSlotSelect timeSlotId st =
     (case selectedVenueA st of
        None \<Rightarrow> st
      | Some venue \<Rightarrow>
          if selectedDateA st = [] then st
          else if isTimeSlotBookedA (bookingsA st) (venue_idA venue) (selectedDateA st) timeSlotId
          then toast ''Time Slot Unavailable'' st
          else st\<lparr>selectedTimeSlotA := timeSlotId, showBookingFormA := True\<rparr>)"

text \<open>
  \<open>newId\<close> is the value of \<^verbatim>\<open>generateBookingId()\<close> and \<open>now\<close> that of
  \<^verbatim>\<open>new Date().toISOString()\<close> at the call.
\<close>

definition handleBookingSubmit :: "string \<Rightarrow> string \<Rightarrow> StateA \<Rightarrow> StateA" where
  "handleBookingSubmit newId now st =
     (case selectedVenueA st of
        None \<Rightarrow> toast ''Incomplete Information'' st
      | Some venue \<Rightarrow>
          if selectedDateA st = [] \<or> selectedTimeSlotA st = [] \<or>
             trim (form_purpose (bookingFormA st)) = []
          then toast ''Incomplete Information'' st
          else
            toast ''Booking Submitted Successfully!''
              (st\<lparr>bookingsA := bookingsA st @
                   [\<lparr> idA = newId,
                      venueIdA = venue_idA venue,
                      venueNameA = venue_nameA venue,
                      dateA = selectedDateA st,
                      timeSlotA = selectedTimeSlotA st,
                      bookerNameA = form_bookerName (bookingFormA st),
                      departmentA = form_department (bookingFormA st),
                      purposeA = form_purpose (bookingFormA st),
                      statusA = Pending,
                      createdAtA = now \<rparr>],
                  bookingFormA := (bookingFormA st)\<lparr>form_purpose := []\<rparr>,
                  showBookingFormA := False,
                  selectedTimeSlotA := []\<rparr>))"

definition handleCancelBooking :: "string \<Rightarrow> StateA \<Rightarrow> StateA" where
  "handleCancelBooking bookingId st =
     toast ''Booking Cancelled''
       (st\<lparr>bookingsA :=
            map (\<lambda>booking. if idA booking = bookingId
                            then booking\<lparr>statusA := Cancelled\<rparr>
                            else booking) (bookingsA st)\<rparr>)"

text \<open>
  The Cancel button of the My Bookings tab: it is rendered on the card of a booking of
  the list whose \<^verbatim>\<open>bookerName\<close> is the mock user's, and only while
  \<^verbatim>\<open>booking.status === 'Pending'\<close>; its click calls
  \<^verbatim>\<open>handleCancelBooking(booking.id)\<close>.
\<close>

definition cancelButtonShown :: "BookingA \<Rightarrow> StateA \<Rightarrow> bool" where
  "cancelButtonShown booking st \<longleftrightarrow>
     booking \<in> set (filter (\<lambda>b. bookerNameA b = MOCK_USER_name) (bookingsA st)) \<and>
     statusA booking = Pending"

definition cancelButtonClick :: "BookingA \<Rightarrow> StateA \<Rightarrow> StateA" where
  "cancelButtonClick booking st =
     (if cancelButtonShown booking st then handleCancelBooking (idA booking) st else st)"

section \<open>Variant B: component state and handlers\<close>

text \<open>
  The cells of variant B that its booking handlers read and write; the search and
  filter cells and \<^verbatim>\<open>activeTab\<close> are left out. \<open>formB\<close> holds the values of the
  \<^verbatim>\<open>react-hook-form\<close> form, which \<^verbatim>\<open>form.reset()\<close> sets back to the defaults.
\<close>

record StateB =
  bookingsB :: "BookingB list"
  selectedVenueB :: "VenueB option"
  selectedDateB :: string
  selectedTimeSlotB :: string
  isBookingDialogOpenB :: bool
  formB :: BookingFormData

definition defaultValues :: BookingFormData where
  "defaultValues =
     \<lparr> data_purpose = [], data_attendees = 1, data_requirements = [],
       data_contactEmail = [], data_department = [] \<rparr>"

definition initialBookingsB :: "BookingB list" where
  "initialBookingsB =
     [\<lparr> idB = ''1'', venueIdB = ''1'', venueNameB = ''Main Auditorium'',
        dateB = ''2024-01-15'', timeSlotB = ''09:00-11:00'',
        purposeB = ''Annual Function'', bookedByB = ''Dr. Smith'',
        statusB = approved, attendeesB = 300,
        requirementsB = ''Stage decoration, sound system'',
        contactEmailB = ''dr.smith@geeta.edu'', departmentB = ''Cultural Committee'' \<rparr>,
      \<lparr> idB = ''2'', venueIdB = ''2'', venueNameB = ''Conference Hall'',
        dateB = ''2024-01-16'', timeSlotB = ''14:00-16:00'',
        purposeB = ''Department Meeting'', bookedByB = ''Prof. Johnson'',
        statusB = pending, attendeesB = 25,
        requirementsB = ''Projector, refreshments'',
        contactEmailB = ''prof.johnson@geeta.edu'', departmentB = ''Computer Science'' \<rparr>]"

definition initialStateB :: StateB where
  "initialStateB =
     \<lparr> bookingsB = initialBookingsB, selectedVenueB = None, selectedDateB = [],
       selectedTimeSlotB = [], isBookingDialogOpenB = False, formB = defaultValues \<rparr>"

definition timeSlots :: "string list" where
  "timeSlots =
     [''09:00-10:00'', ''10:00-11:00'', ''11:00-12:00'', ''12:00-13:00'',
      ''13:00-14:00'', ''14:00-15:00'', ''15:00-16:00'', ''16:00-17:00'', ''17:00-18:00'']"

definition handleBookVenue :: "VenueB \<Rightarrow> StateB \<Rightarrow> StateB" where
  "handleBookVenue venue st = st\<lparr>selectedVenueB := Some venue, isBookingDialogOpenB := True\<rparr>"

text \<open>
  The date input of the dialog, \<^verbatim>\<open>onChange={(e) => setSelectedDate(e.target.value)}\<close>.
  The dialog shows its form only while a venue is selected.
\<close>

definition dateInputChange :: "string \<Rightarrow> StateB \<Rightarrow> StateB" where
  "dateInputChange v st =
     (if isBookingDialogOpenB st \<and> selectedVenueB st \<noteq> None
      then st\<lparr>selectedDateB := v\<rparr> else st)"

text \<open>
  A time slot button of the dialog. The buttons are rendered for the entries of
  \<^verbatim>\<open>timeSlots\<close> while a venue and a date are selected; a booked one is disabled,
  and the click is \<^verbatim>\<open>!isBooked && setSelectedTimeSlot(slot)\<close>.
\<close>

definition timeSlotButtonClick :: "string \<Rightarrow> StateB \<Rightarrow> StateB" where
  "timeSlotButtonClick slot st =
     (case selectedVenueB st of
        None \<Rightarrow> st
      | Some venue \<Rightarrow>
          if isBookingDialogOpenB st \<and> selectedDateB st \<noteq> [] \<and> slot \<in> set timeSlots
          then
            if isTimeSlotBookedB (bookingsB st) (venue_idB venue) (selectedDateB st) slot
            then st
            else st\<lparr>selectedTimeSlotB := slot\<rparr>
          else st)"

text \<open>
  \<open>user\<close> is the \<^verbatim>\<open>user\<close> of \<^verbatim>\<open>useAuth()\<close> (null when nobody is logged in),
  \<open>newId\<close> the value of \<^verbatim>\<open>Date.now().toString()\<close> at the call, \<open>data\<close> the form
  values \<^verbatim>\<open>form.handleSubmit\<close> passes.
\<close>

definition bookedBy :: "User option \<Rightarrow> string" where
  "bookedBy user =
     (case user of
        None \<Rightarrow> ''Unknown User''
      | Some u \<Rightarrow> if username u = [] then ''Unknown User'' else username u)"

definition onSubmitBooking :: "User option \<Rightarrow> string \<Rightarrow> BookingFormData \<Rightarrow> StateB \<Rightarrow> StateB" where
  "onSubmitBooking user newId data st =
     (case selectedVenueB st of
        None \<Rightarrow> st
      | Some venue \<Rightarrow>
          if selectedDateB st = [] \<or> selectedTimeSlotB st = [] then st
          else
            st\<lparr>bookingsB := bookingsB st @
                 [\<lparr> idB = newId,
                    venueIdB = venue_idB venue,
                    venueNameB = venue_nameB venue,
                    dateB = selectedDateB st,
                    timeSlotB = selectedTimeSlotB st,
                    purposeB = data_purpose data,
                    bookedByB = bookedBy user,
                    statusB = pending,
                    attendeesB = data_attendees data,
                    requirementsB = data_requirements data,
                    contactEmailB = data_contactEmail data,
                    departmentB = data_department data \<rparr>],
               isBookingDialogOpenB := False,
               formB := defaultValues,
               selectedVenueB := None,
               selectedDateB := [],
               selectedTimeSlotB := []\<rparr>)"

text \<open>
  The parameter \<open>status\<close> has the type \<^verbatim>\<open>'approved' | 'rejected'\<close> in the source.
\<close>

definition updateBookingStatus :: "string \<Rightarrow> StatusB \<Rightarrow> StateB \<Rightarrow> StateB" where
  "updateBookingStatus bookingId status st =
     st\<lparr>bookingsB :=
          map (\<lambda>booking. if idB booking = bookingId
                          then booking\<lparr>statusB := status\<rparr>
                          else booking) (bookingsB st)\<rparr>"

definition deleteBooking :: "string \<Rightarrow> StateB \<Rightarrow> StateB" where
  "deleteBooking bookingId st =
     st\<lparr>bookingsB := filter (\<lambda>booking. idB booking \<noteq> bookingId) (bookingsB st)\<rparr>"

text \<open>
  The Approve and Reject buttons of a booking card: rendered only while
  \<^verbatim>\<open>user?.userType === 'hod' && booking.status === 'pending'\<close>, for a booking of
  the list; the click calls \<^verbatim>\<open>updateBookingStatus(booking.id, status)\<close>.
\<close>

definition statusButtonsShown :: "User option \<Rightarrow> BookingB \<Rightarrow> StateB \<Rightarrow> bool" where
  "statusButtonsShown user booking st \<longleftrightarrow>
     booking \<in> set (bookingsB st) \<and>
     (case user of None \<Rightarrow> False | Some u \<Rightarrow> userType u = hod) \<and>
     statusB booking = pending"

definition statusButtonClick :: "User option \<Rightarrow> BookingB \<Rightarrow> StatusB \<Rightarrow> StateB \<Rightarrow> StateB" where
  "statusButtonClick user booking status st =
     (if statusButtonsShown user booking st
      then updateBookingStatus (idB booking) status st else st)"

text \<open>
  The Delete button of a booking card: rendered while
  \<^verbatim>\<open>booking.bookedBy === user?.username || user?.userType === 'hod'\<close>.
\<close>

definition deleteButtonShown :: "User option \<Rightarrow> BookingB \<Rightarrow> StateB \<Rightarrow> bool" where
  "deleteButtonShown user booking st \<longleftrightarrow>
     booking \<in> set (bookingsB st) \<and>
     (case user of None \<Rightarrow> False
      | Some u \<Rightarrow> bookedByB booking = username u \<or> userType u = hod)"

definition deleteButtonClick :: "User option \<Rightarrow> BookingB \<Rightarrow> StateB \<Rightarrow> StateB" where
  "deleteButtonClick user booking st =
     (if deleteButtonShown user booking st then deleteBooking (idB booking) st else st)"

text \<open>
  Closing the dialog (its Cancel button, or \<^verbatim>\<open>onOpenChange\<close>):
  \<^verbatim>\<open>setIsBookingDialogOpen(false)\<close> and nothing else.
\<close>

definition closeDialog :: "StateB \<Rightarrow> StateB" where
  "closeDialog st = st\<lparr>isBookingDialogOpenB := False\<rparr>"

text \<open>
  The dialog's form. Its inputs write the form values. Its submit button is disabled
  while \<^verbatim>\<open>!selectedDate || !selectedTimeSlot\<close>, and the browser submits only
  when the inputs marked \<^verbatim>\<open>required\<close> are filled (any non-empty text will do)
  and the number of attendees lies between \<^verbatim>\<open>min="1"\<close> and
  \<^verbatim>\<open>max={selectedVenue.capacity}\<close>; the format check of the email input is not
  modelled. The form's \<^verbatim>\<open>onSubmit\<close> is \<^verbatim>\<open>form.handleSubmit(onSubmitBooking)\<close>,
  which calls \<^verbatim>\<open>onSubmitBooking\<close> with the form values.
\<close>

definition formInputChange :: "BookingFormData \<Rightarrow> StateB \<Rightarrow> StateB" where
  "formInputChange data st = st\<lparr>formB := data\<rparr>"

definition requiredFilled :: "VenueB \<Rightarrow> BookingFormData \<Rightarrow> bool" where
  "requiredFilled venue data \<longleftrightarrow>
     data_purpose data \<noteq> [] \<and> data_department data \<noteq> [] \<and>
     data_contactEmail data \<noteq> [] \<and>
     1 \<le> data_attendees data \<and> data_attendees data \<le> venue_capacityB venue"

definition submitButtonClick :: "User option \<Rightarrow> string \<Rightarrow> StateB \<Rightarrow> StateB" where
  "submitButtonClick user newId st =
     (case selectedVenueB st of
        None \<Rightarrow> st
      | Some venue \<Rightarrow>
          if isBookingDialogOpenB st \<and> selectedDateB st \<noteq> [] \<and>
             selectedTimeSlotB st \<noteq> [] \<and> requiredFilled venue (formB st)
          then onSubmitBooking user newId (formB st) st
          else st)"

section \<open>Variant A: the remaining inline handlers\<close>

text \<open>
  The inputs of the booking form,
  \<^verbatim>\<open>setBookingForm(prev => ({ ...prev, purpose: e.target.value }))\<close> and its two
  siblings, and the form's Cancel button, \<^verbatim>\<open>setShowBookingForm(false)\<close>.
\<close>

definition bookerNameChange :: "string \<Rightarrow> StateA \<Rightarrow> StateA" where
  "bookerNameChange v st = st\<lparr>bookingFormA := (bookingFormA st)\<lparr>form_bookerName := v\<rparr>\<rparr>"

definition departmentChange :: "string \<Rightarrow> StateA \<Rightarrow> StateA" where
  "departmentChange v st = st\<lparr>bookingFormA := (bookingFormA st)\<lparr>form_department := v\<rparr>\<rparr>"

definition purposeChange :: "string \<Rightarrow> StateA \<Rightarrow> StateA" where
  "purposeChange v st = st\<lparr>bookingFormA := (bookingFormA st)\<lparr>form_purpose := v\<rparr>\<rparr>"

definition closeBookingForm :: "StateA \<Rightarrow> StateA" where
  "closeBookingForm st = st\<lparr>showBookingFormA := False\<rparr>"

section \<open>Static data and sample runs\<close>

text \<open>The first entry of \<^verbatim>\<open>VENUES\<close>.\<close>

definition mainAuditoriumA :: VenueA where
  "mainAuditoriumA =
     \<lparr> venue_idA = ''auditorium'', venue_nameA = ''Main Auditorium'',
       venue_descriptionA =
         ''Large capacity auditorium perfect for conferences, seminars, and major events'',
       venue_capacityA = ''500 seats'',
       venue_locationA = ''Main Building, Ground Floor'',
       venue_featuresA =
         [''Air Conditioning'', ''Projector'', ''Sound System'', ''Stage'', ''Microphones''] \<rparr>"

text \<open>The \<^verbatim>\<open>venues\<close> cell of variant B, which is never updated.\<close>

definition mainAuditoriumB :: VenueB where
  "mainAuditoriumB =
     \<lparr> venue_idB = ''1'', venue_nameB = ''Main Auditorium'', venue_capacityB = 500,
       venue_locationB = ''Academic Block A'',
       venue_amenitiesB = [''Projector'', ''Sound System'', ''AC'', ''Stage''],
       venue_imageB = ''/api/placeholder/400/250'', venue_typeB = auditorium \<rparr>"

definition venuesB :: "VenueB list" where
  "venuesB =
     [mainAuditoriumB,
      \<lparr> venue_idB = ''2'', venue_nameB = ''Conference Hall'', venue_capacityB = 50,
        venue_locationB = ''Administrative Block'',
        venue_amenitiesB = [''Projector'', ''Whiteboard'', ''AC'', ''WiFi''],
        venue_imageB = ''/api/placeholder/400/250'', venue_typeB = conference \<rparr>,
      \<lparr> venue_idB = ''3'', venue_nameB = ''Computer Lab 1'', venue_capacityB = 40,
        venue_locationB = ''IT Block'',
        venue_amenitiesB = [''Computers'', ''Projector'', ''AC'', ''WiFi''],
        venue_imageB = ''/api/placeholder/400/250'', venue_typeB = lab \<rparr>,
      \<lparr> venue_idB = ''4'', venue_nameB = ''Classroom 101'', venue_capacityB = 60,
        venue_locationB = ''Academic Block B'',
        venue_amenitiesB = [''Projector'', ''Whiteboard'', ''AC''],
        venue_imageB = ''/api/placeholder/400/250'', venue_typeB = classroom \<rparr>,
      \<lparr> venue_idB = ''5'', venue_nameB = ''Sports Ground'', venue_capacityB = 200,
        venue_locationB = ''Sports Complex'',
        venue_amenitiesB = [''Open Air'', ''Lighting'', ''Seating''],
        venue_imageB = ''/api/placeholder/400/250'', venue_typeB = outdoor \<rparr>,
      \<lparr> venue_idB = ''6'', venue_nameB = ''Seminar Hall'', venue_capacityB = 100,
        venue_locationB = ''Academic Block C'',
        venue_amenitiesB = [''Projector'', ''Sound System'', ''AC'', ''Stage''],
        venue_imageB = ''/api/placeholder/400/250'', venue_typeB = auditorium \<rparr>]"

definition hodUser :: User where
  "hodUser = \<lparr> username = ''Dr. Smith'', userType = hod \<rparr>"

text \<open>
  Variant A after one complete booking: the auditorium, 2024-03-10, slot 9-10,
  purpose Board Meeting.
\<close>

definition slotChosenA :: StateA where
  "slotChosenA =
     purposeChange ''Board Meeting''
       (handleTimeSlotSelect ''9-10''
         (handleDateSelect ''2024-03-10'' (handleVenueSelect mainAuditoriumA initialStateA)))"

definition oneBookingA :: StateA where
  "oneBookingA = handleBookingSubmit ''booking_1'' ''2024-03-01T08:00:00.000Z'' slotChosenA"

text \<open>A stored list of variant A with an approved booking, as the type admits.\<close>

definition approvedBookingA :: BookingA where
  "approvedBookingA =
     \<lparr> idA = ''booking_7'', venueIdA = ''auditorium'', venueNameA = ''Main Auditorium'',
       dateA = ''2024-03-10'', timeSlotA = ''9-10'', bookerNameA = MOCK_USER_name,
       departmentA = MOCK_USER_department, purposeA = ''Board Meeting'',
       statusA = Approved, createdAtA = ''2024-03-01T08:00:00.000Z'' \<rparr>"

definition approvedStateA :: StateA where
  "approvedStateA = initialStateA\<lparr>bookingsA := [approvedBookingA]\<rparr>"

text \<open>
  Variant B, a form whose purpose is three spaces (the \<^verbatim>\<open>required\<close> attribute of
  the input accepts it), submitted for the auditorium, 2030-03-10, 09:00-10:00.
\<close>

definition blankPurposeData :: BookingFormData where
  "blankPurposeData =
     \<lparr> data_purpose = ''   '', data_attendees = 10, data_requirements = [],
       data_contactEmail = ''prof.johnson@geeta.edu'',
       data_department = ''Computer Science'' \<rparr>"

definition slotChosenB :: StateB where
  "slotChosenB =
     timeSlotButtonClick ''09:00-10:00''
       (dateInputChange ''2030-03-10'' (handleBookVenue mainAuditoriumB initialStateB))"

definition meetingData :: BookingFormData where
  "meetingData =
     \<lparr> data_purpose = ''Board Meeting'', data_attendees = 10, data_requirements = [],
       data_contactEmail = ''prof.johnson@geeta.edu'',
       data_department = ''Computer Science'' \<rparr>"

text \<open>
  Variant B, two bookings made through the dialog. The first: the auditorium,
  2030-03-10, 09:00-10:00. The second: the auditorium again, the date 2030-03-11, the
  slot 09:00-10:00 (free on that day), then the date changed back to 2030-03-10, then
  the submit button.
\<close>

definition firstBookingB :: StateB where
  "firstBookingB =
     submitButtonClick (Some hodUser) ''1710000000000'' (formInputChange meetingData slotChosenB)"

definition doubleBookingB :: StateB where
  "doubleBookingB =
     submitButtonClick (Some hodUser) ''1710000060000''
       (formInputChange meetingData
         (dateInputChange ''2030-03-10''
           (timeSlotButtonClick ''09:00-10:00''
             (dateInputChange ''2030-03-11''
               (handleBookVenue mainAuditoriumB firstBookingB)))))"

section \<open>Uniqueness of the active bookings\<close>

text \<open>
  A booking is active while its status is not the negative terminal one; its slot is
  the triple of venue, date and time slot. A list is conflict free when the slots of
  its active bookings are pairwise different.
\<close>

definition activeA :: "BookingA \<Rightarrow> bool" where
  "activeA b \<longleftrightarrow> statusA b \<noteq> Cancelled"

definition slotOfA :: "BookingA \<Rightarrow> string \<times> string \<times> string" where
  "slotOfA b = (venueIdA b, dateA b, timeSlotA b)"

definition uniqueActiveA :: "BookingA list \<Rightarrow> bool" where
  "uniqueActiveA bs \<longleftrightarrow> distinct (map slotOfA (filter activeA bs))"

definition activeB :: "BookingB \<Rightarrow> bool" where
  "activeB b \<longleftrightarrow> statusB b \<noteq> rejected"

definition slotOfB :: "BookingB \<Rightarrow> string \<times> string \<times> string" where
  "slotOfB b = (venueIdB b, dateB b, timeSlotB b)"

definition uniqueActiveB :: "BookingB list \<Rightarrow> bool" where
  "uniqueActiveB bs \<longleftrightarrow> distinct (map slotOfB (filter activeB bs))"

text \<open>
  Reloading the page of variant A: every cell starts afresh, and the mount effect reads
  the bookings back from local storage, where the save effect wrote them after the last
  change (taking \<^verbatim>\<open>JSON.parse\<close> to return what \<^verbatim>\<open>JSON.stringify\<close> was given).
\<close>

definition reloadA :: "StateA \<Rightarrow> StateA" where
  "reloadA st = initialStateA\<lparr>bookingsA := bookingsA st\<rparr>"

text \<open>
  The states of variant A that the handlers reach from the first render, with any
  arguments.
\<close>

inductive reachableA :: "StateA \<Rightarrow> bool" where
  initialA: "reachableA initialStateA"
| venueSelectA: "reachableA st \<Longrightarrow> reachableA (handleVenueSelect venue st)"
| dateSelectA: "reachableA st \<Longrightarrow> reachableA (handleDateSelect dateStr st)"
| timeSlotSelectA: "reachableA st \<Longrightarrow> reachableA (handleTimeSlotSelect timeSlotId st)"
| bookerNameA: "reachableA st \<Longrightarrow> reachableA (bookerNameChange v st)"
| departmentA: "reachableA st \<Longrightarrow> reachableA (departmentChange v st)"
| purposeA: "reachableA st \<Longrightarrow> reachableA (purposeChange v st)"
| closeFormA: "reachableA st \<Longrightarrow> reachableA (closeBookingForm st)"
| submitA: "reachableA st \<Longrightarrow> reachableA (handleBookingSubmit newId now st)"
| cancelA: "reachableA st \<Longrightarrow> reachableA (handleCancelBooking bookingId st)"
| reloadedA: "reachableA st \<Longrightarrow> reachableA (reloadA st)"

text \<open>
  What the time slot selection leaves behind: a chosen slot belongs to a chosen venue
  and date, and was free when chosen.
\<close>

definition chosenSlotFreeA :: "StateA \<Rightarrow> bool" where
  "chosenSlotFreeA st \<longleftrightarrow>
     selectedTimeSlotA st = [] \<or>
     (case selectedVenueA st of
        None \<Rightarrow> False
      | Some venue \<Rightarrow>
          selectedDateA st \<noteq> [] \<and>
          \<not> isTimeSlotBookedA (bookingsA st) (venue_idA venue) (selectedDateA st)
               (selectedTimeSlotA st))"

definition wizardInvariantA :: "StateA \<Rightarrow> bool" where
  "wizardInvariantA st \<longleftrightarrow> uniqueActiveA (bookingsA st) \<and> chosenSlotFreeA st"

text \<open>
  The states of variant B that a user reaches through the rendered controls: the
  Book buttons of the venue cards, the dialog's inputs and buttons, and the buttons of
  the booking cards.
\<close>

inductive reachableB :: "User option \<Rightarrow> StateB \<Rightarrow> bool" for user :: "User option" where
  initialB: "reachableB user initialStateB"
| bookVenueB: "reachableB user st \<Longrightarrow> venue \<in> set venuesB \<Longrightarrow>
     reachableB user (handleBookVenue venue st)"
| dateInputB: "reachableB user st \<Longrightarrow> reachableB user (dateInputChange v st)"
| timeSlotB: "reachableB user st \<Longrightarrow> reachableB user (timeSlotButtonClick slot st)"
| closeDialogB: "reachableB user st \<Longrightarrow> reachableB user (closeDialog st)"
| formInputB: "reachableB user st \<Longrightarrow> reachableB user (formInputChange data st)"
| submitB: "reachableB user st \<Longrightarrow> reachableB user (submitButtonClick user newId st)"
| approveB: "reachableB user st \<Longrightarrow> reachableB user (statusButtonClick user booking approved st)"
| rejectB: "reachableB user st \<Longrightarrow> reachableB user (statusButtonClick user booking rejected st)"
| deleteB: "reachableB user st \<Longrightarrow> reachableB user (deleteButtonClick user booking st)"

section \<open>Loading the bookings at startup (variant A)\<close>

subsection \<open>The values and the grammar of \<^verbatim>\<open>JSON.parse\<close>\<close>

text \<open>
  \<^verbatim>\<open>JSON.parse\<close> is a built-in, modelled here by the JSON grammar of ECMAScript. A
  char of the text is read as the code unit of the same number; a string value is the
  list of its code units, since an escape \<^verbatim>\<open>\uXXXX\<close> can name any of them. A number
  is kept as its literal (its floating point value is not computed) and an object as
  the list of its members as written.
\<close>

datatype JsError = SyntaxError

datatype json =
    JNull
  | JBool bool
  | JNumber string
  | JString "nat list"
  | JArray "json list"
  | JObject "(nat list \<times> json) list"

datatype token =
    TLBrace | TRBrace | TLBracket | TRBracket | TComma | TColon
  | TString "nat list" | TNumber string | TTrue | TFalse | TNull

text \<open>
  The scanner reads one char at a time. Inside a string it holds the code units read
  so far, inside a number the chars read so far, both in reverse.
\<close>

datatype lexState =
    LStart
  | LString "nat list"
  | LEscape "nat list"
  | LUnicode "nat list" nat nat
  | LLiteral string token
  | LMinus string
  | LZero string
  | LInt string
  | LDot string
  | LFrac string
  | LExp string
  | LExpSign string
  | LExpDigits string

definition isJSONWhiteSpace :: "char \<Rightarrow> bool" where
  "isJSONWhiteSpace c \<longleftrightarrow> c \<in> {CHR 0x09, CHR 0x0A, CHR 0x0D, CHR '' ''}"

definition isDigit :: "char \<Rightarrow> bool" where
  "isDigit c \<longleftrightarrow> c \<in> set ''0123456789''"

definition hexValue :: "char \<Rightarrow> nat option" where
  "hexValue c =
     (if isDigit c then Some (of_char c - 48)
      else if c \<in> set ''abcdef'' then Some (of_char c - 87)
      else if c \<in> set ''ABCDEF'' then Some (of_char c - 55)
      else None)"

text \<open>The chars a JSON value can start with, after the white space.\<close>

definition valueStarts :: "char list" where
  "valueStarts = [CHR ''{'', CHR ''['', CHR 0x22, CHR ''-'', CHR ''t'', CHR ''f'', CHR ''n'']
                   @ ''0123456789''"

definition startStep :: "char \<Rightarrow> (lexState \<times> token list) option" where
  "startStep c =
     (if isJSONWhiteSpace c then Some (LStart, [])
      else if c = CHR ''{'' then Some (LStart, [TLBrace])
      else if c = CHR ''}'' then Some (LStart, [TRBrace])
      else if c = CHR ''['' then Some (LStart, [TLBracket])
      else if c = CHR '']'' then Some (LStart, [TRBracket])
      else if c = CHR '','' then Some (LStart, [TComma])
      else if c = CHR '':'' then Some (LStart, [TColon])
      else if c = CHR 0x22 then Some (LString [], [])
      else if c = CHR ''-'' then Some (LMinus [c], [])
      else if c = CHR ''0'' then Some (LZero [c], [])
      else if isDigit c then Some (LInt [c], [])
      else if c = CHR ''t'' then Some (LLiteral ''rue'' TTrue, [])
      else if c = CHR ''f'' then Some (LLiteral ''alse'' TFalse, [])
      else if c = CHR ''n'' then Some (LLiteral ''ull'' TNull, [])
      else None)"

text \<open>
  A number ends before the first char that cannot continue it; that char is then read
  as the start of the next token.
\<close>

definition endNumber :: "string \<Rightarrow> char \<Rightarrow> (lexState \<times> token list) option" where
  "endNumber acc c =
     (case startStep c of
        None \<Rightarrow> None
      | Some (st, out) \<Rightarrow> Some (st, TNumber (rev acc) # out))"

definition escapeValue :: "char \<Rightarrow> nat option" where
  "escapeValue c =
     (if c = CHR 0x22 \<or> c = CHR 0x5C \<or> c = CHR ''/'' then Some (of_char c)
      else if c = CHR ''b'' then Some 8
      else if c = CHR ''f'' then Some 12
      else if c = CHR ''n'' then Some 10
      else if c = CHR ''r'' then Some 13
      else if c = CHR ''t'' then Some 9
      else None)"

fun lexStep :: "lexState \<Rightarrow> char \<Rightarrow> (lexState \<times> token list) option" where
  "lexStep LStart c = startStep c"
| "lexStep (LString acc) c =
     (if c = CHR 0x22 then Some (LStart, [TString (rev acc)])
      else if c = CHR 0x5C then Some (LEscape acc, [])
      else if (of_char c :: nat) < 32 then None
      else Some (LString (of_char c # acc), []))"
| "lexStep (LEscape acc) c =
     (if c = CHR ''u'' then Some (LUnicode acc 4 0, [])
      else (case escapeValue c of
              None \<Rightarrow> None
            | Some u \<Rightarrow> Some (LString (u # acc), [])))"
| "lexStep (LUnicode acc k v) c =
     (case hexValue c of
        None \<Rightarrow> None
      | Some h \<Rightarrow>
          if k \<le> 1 then Some (LString ((16 * v + h) # acc), [])
          else Some (LUnicode acc (k - 1) (16 * v + h), []))"
| "lexStep (LLiteral rest tok) c =
     (case rest of
        [] \<Rightarrow> None
      | r # rs \<Rightarrow>
          if c \<noteq> r then None
          else if rs = [] then Some (LStart, [tok])
          else Some (LLiteral rs tok, []))"
| "lexStep (LMinus acc) c =
     (if c = CHR ''0'' then Some (LZero (c # acc), [])
      else if isDigit c then Some (LInt (c # acc), [])
      else None)"
| "lexStep (LZero acc) c =
     (if c = CHR ''.'' then Some (LDot (c # acc), [])
      else if c = CHR ''e'' \<or> c = CHR ''E'' then Some (LExp (c # acc), [])
      else endNumber acc c)"
| "lexStep (LInt acc) c =
     (if isDigit c then Some (LInt (c # acc), [])
      else if c = CHR ''.'' then Some (LDot (c # acc), [])
      else if c = CHR ''e'' \<or> c = CHR ''E'' then Some (LExp (c # acc), [])
      else endNumber acc c)"
| "lexStep (LDot acc) c =
     (if isDigit c then Some (LFrac (c # acc), []) else None)"
| "lexStep (LFrac acc) c =
     (if isDigit c then Some (LFrac (c # acc), [])
      else if c = CHR ''e'' \<or> c = CHR ''E'' then Some (LExp (c # acc), [])
      else endNumber acc c)"
| "lexStep (LExp acc) c =
     (if c = CHR ''+'' \<or> c = CHR ''-'' then Some (LExpSign (c # acc), [])
      else if isDigit c then Some (LExpDigits (c # acc), [])
      else None)"
| "lexStep (LExpSign acc) c =
     (if isDigit c then Some (LExpDigits (c # acc), []) else None)"
| "lexStep (LExpDigits acc) c =
     (if isDigit c then Some (LExpDigits (c # acc), []) else endNumber acc c)"

fun lexEnd :: "lexState \<Rightarrow> token list option" where
  "lexEnd LStart = Some []"
| "lexEnd (LZero acc) = Some [TNumber (rev acc)]"
| "lexEnd (LInt acc) = Some [TNumber (rev acc)]"
| "lexEnd (LFrac acc) = Some [TNumber (rev acc)]"
| "lexEnd (LExpDigits acc) = Some [TNumber (rev acc)]"
| "lexEnd _ = None"

fun lex :: "lexState \<Rightarrow> string \<Rightarrow> token list option" where
  "lex st [] = lexEnd st"
| "lex st (c # cs) =
     (case lexStep st c of
        None \<Rightarrow> None
      | Some (st', out) \<Rightarrow>
          (case lex st' cs of
             None \<Rightarrow> None
           | Some toks \<Rightarrow> Some (out @ toks)))"

text \<open>
  The parser reads one token at a time and keeps the unfinished arrays and objects on
  a stack: the elements of an array and the members of an object read so far (in
  reverse), and on top of an object the key whose value is being read.
\<close>

datatype frame =
    FArray "json list"
  | FObject "(nat list \<times> json) list"
  | FMember "nat list"

datatype parseState =
    PValue
  | PArrayStart
  | PAfterElement
  | PObjectStart
  | PKey
  | PColon
  | PAfterMember
  | PDone json

text \<open>A finished value goes to the array or the member on top of the stack.\<close>

fun deliver :: "json \<Rightarrow> frame list \<Rightarrow> (parseState \<times> frame list) option" where
  "deliver v [] = Some (PDone v, [])"
| "deliver v (FArray es # stack) = Some (PAfterElement, FArray (v # es) # stack)"
| "deliver v (FMember k # FObject ms # stack) = Some (PAfterMember, FObject ((k, v) # ms) # stack)"
| "deliver v _ = None"

fun startValue :: "frame list \<Rightarrow> token \<Rightarrow> (parseState \<times> frame list) option" where
  "startValue stack TNull = deliver JNull stack"
| "startValue stack TTrue = deliver (JBool True) stack"
| "startValue stack TFalse = deliver (JBool False) stack"
| "startValue stack (TNumber n) = deliver (JNumber n) stack"
| "startValue stack (TString s) = deliver (JString s) stack"
| "startValue stack TLBracket = Some (PArrayStart, FArray [] # stack)"
| "startValue stack TLBrace = Some (PObjectStart, FObject [] # stack)"
| "startValue stack _ = None"

fun closeArray :: "frame list \<Rightarrow> (parseState \<times> frame list) option" where
  "closeArray (FArray es # stack) = deliver (JArray (rev es)) stack"
| "closeArray _ = None"

fun closeObject :: "frame list \<Rightarrow> (parseState \<times> frame list) option" where
  "closeObject (FObject ms # stack) = deliver (JObject (rev ms)) stack"
| "closeObject _ = None"

fun parseStep :: "parseState \<Rightarrow> frame list \<Rightarrow> token \<Rightarrow> (parseState \<times> frame list) option" where
  "parseStep PValue stack t = startValue stack t"
| "parseStep PArrayStart stack t =
     (if t = TRBracket then closeArray stack else startValue stack t)"
| "parseStep PAfterElement stack t =
     (if t = TComma then Some (PValue, stack)
      else if t = TRBracket then closeArray stack
      else None)"
| "parseStep PObjectStart stack t =
     (case t of
        TString k \<Rightarrow> Some (PColon, FMember k # stack)
      | TRBrace \<Rightarrow> closeObject stack
      | _ \<Rightarrow> None)"
| "parseStep PKey stack t =
     (case t of TString k \<Rightarrow> Some (PColon, FMember k # stack) | _ \<Rightarrow> None)"
| "parseStep PColon stack t = (if t = TColon then Some (PValue, stack) else None)"
| "parseStep PAfterMember stack t =
     (if t = TComma then Some (PKey, stack)
      else if t = TRBrace then closeObject stack
      else None)"
| "parseStep (PDone v) stack t = None"

fun parseEnd :: "parseState \<Rightarrow> frame list \<Rightarrow> json option" where
  "parseEnd (PDone v) [] = Some v"
| "parseEnd _ _ = None"

fun parse :: "parseState \<Rightarrow> frame list \<Rightarrow> token list \<Rightarrow> json option" where
  "parse st stack [] = parseEnd st stack"
| "parse st stack (t # ts) =
     (case parseStep st stack t of
        None \<Rightarrow> None
      | Some (st', stack') \<Rightarrow> parse st' stack' ts)"

text \<open>\<^verbatim>\<open>JSON.parse(text)\<close>: the value of the text, or the SyntaxError it throws.\<close>

definition JSON_parse :: "string \<Rightarrow> JsError + json" where
  "JSON_parse raw =
     (case lex LStart raw of
        None \<Rightarrow> Inl SyntaxError
      | Some toks \<Rightarrow>
          (case parse PValue [] toks of
             None \<Rightarrow> Inl SyntaxError
           | Some v \<Rightarrow> Inr v))"

subsection \<open>The mount effect\<close>

text \<open>
  The JavaScript value that a typed list of bookings is: an array of objects with the
  ten fields of \<^verbatim>\<open>Booking\<close>.
\<close>

definition codeUnits :: "string \<Rightarrow> nat list" where
  "codeUnits s = map of_char s"

definition statusValue :: "StatusA \<Rightarrow> json" where
  "statusValue s =
     JString (codeUnits (case s of Pending \<Rightarrow> ''Pending'' | Approved \<Rightarrow> ''Approved''
                         | Cancelled \<Rightarrow> ''Cancelled''))"

definition bookingValue :: "BookingA \<Rightarrow> json" where
  "bookingValue b =
     JObject
       [(codeUnits ''id'', JString (codeUnits (idA b))),
        (codeUnits ''venueId'', JString (codeUnits (venueIdA b))),
        (codeUnits ''venueName'', JString (codeUnits (venueNameA b))),
        (codeUnits ''date'', JString (codeUnits (dateA b))),
        (codeUnits ''timeSlot'', JString (codeUnits (timeSlotA b))),
        (codeUnits ''bookerName'', JString (codeUnits (bookerNameA b))),
        (codeUnits ''department'', JString (codeUnits (departmentA b))),
        (codeUnits ''purpose'', JString (codeUnits (purposeA b))),
        (codeUnits ''status'', statusValue (statusA b)),
        (codeUnits ''createdAt'', JString (codeUnits (createdAtA b)))]"

definition bookingsValue :: "BookingA list \<Rightarrow> json" where
  "bookingsValue bs = JArray (map bookingValue bs)"

text \<open>
  The bookings part of the effect that runs once after the first render:
  \<^verbatim>\<open>savedBookings\<close> is what \<^verbatim>\<open>localStorage.getItem\<close> returns (null when the key is
  absent) and \<open>bookings\<close> the value of the bookings cell, which is the empty array at
  that time. The result is the value of the cell after the effect, or the exception the
  effect throws; nothing catches it and nothing checks the shape of the parsed value.
\<close>

definition loadBookings :: "string option \<Rightarrow> json \<Rightarrow> JsError + json" where
  "loadBookings savedBookings bookings =
     (case savedBookings of
        None \<Rightarrow> Inr bookings
      | Some raw \<Rightarrow>
          if raw = [] then Inr bookings
          else (case JSON_parse raw of
                  Inl e \<Rightarrow> Inl e
                | Inr v \<Rightarrow> Inr v))"

text \<open>
  A text starts like JSON when its first char after the white space is one a JSON value
  can start with.
\<close>

definition startsLikeJSON :: "string \<Rightarrow> bool" where
  "startsLikeJSON raw \<longleftrightarrow>
     (case dropWhile isJSONWhiteSpace raw of
        [] \<Rightarrow> False
      | c # cs \<Rightarrow> c \<in> set valueStarts)"

text \<open>What the save effect writes for the list that holds \<open>approvedBookingA\<close> alone.\<close>

definition savedApprovedA :: string where
  \<open>savedApprovedA =
     ''[{"id":"booking_7","venueId":"auditorium","venueName":"Main Auditorium",'' @
     ''"date":"2024-03-10","timeSlot":"9-10","bookerName":"Dr. Rajesh Kumar",'' @
     ''"department":"Computer Science","purpose":"Board Meeting",'' @
     ''"status":"Approved","createdAt":"2024-03-01T08:00:00.000Z"}]''\<close>

section \<open>Auxiliary facts on lists\<close>

lemma array_some_iff: "array_some p xs \<longleftrightarrow> (\<exists>x \<in> set xs. p x)"
  by (induction xs) auto

lemma map_if_absent:
  "\<forall>x \<in> set xs. \<not> p x \<Longrightarrow> map (\<lambda>x. if p x then f x else x) xs = xs"
  by (induction xs) auto

lemma map_if_fixed:
  assumes "\<And>x. x \<in> set xs \<Longrightarrow> p x \<Longrightarrow> f x = x"
  shows "map (\<lambda>x. if p x then f x else x) xs = xs"
  by (rule map_idI) (simp add: assms)

lemma map_if_member:
  assumes "y \<in> set (map (\<lambda>x. if p x then f x else x) xs)"
  obtains x where "x \<in> set xs" and "y = (if p x then f x else x)"
  using assms by auto

lemma filter_all: "\<forall>x \<in> set xs. p x \<Longrightarrow> filter p xs = xs"
  by (induction xs) auto

section \<open>Properties of the conflict checker\<close>

text \<open>
  C2. The conflict checker answers true exactly when some stored booking has the
  queried venue, date and time slot and a status other than Cancelled (variant A),
  other than rejected (variant B).
\<close>

theorem isTimeSlotBooked_iff:
  "(isTimeSlotBookedA bsA venueId date timeSlot \<longleftrightarrow>
      (\<exists>b \<in> set bsA. venueIdA b = venueId \<and> dateA b = date \<and>
          timeSlotA b = timeSlot \<and> statusA b \<noteq> Cancelled)) \<and>
   (isTimeSlotBookedB bsB venueId date timeSlot \<longleftrightarrow>
      (\<exists>b \<in> set bsB. venueIdB b = venueId \<and> dateB b = date \<and>
          timeSlotB b = timeSlot \<and> statusB b \<noteq> rejected))"
  unfolding isTimeSlotBookedA_def isTimeSlotBookedB_def array_some_iff by simp

text \<open>
  C8. The conflict checker is a function of the list and the query alone (it returns a
  truth value and nothing else), and its answer is the same on any two lists that are
  permutations of each other.
\<close>

theorem isTimeSlotBooked_permutation:
  "(mset bsA = mset bsA' \<longrightarrow>
      isTimeSlotBookedA bsA venueId date timeSlot =
      isTimeSlotBookedA bsA' venueId date timeSlot) \<and>
   (mset bsB = mset bsB' \<longrightarrow>
      isTimeSlotBookedB bsB venueId date timeSlot =
      isTimeSlotBookedB bsB' venueId date timeSlot)"
proof (intro conjI impI)
  assume "mset bsA = mset bsA'"
  then have "set bsA = set bsA'" by (rule mset_eq_setD)
  then show "isTimeSlotBookedA bsA venueId date timeSlot =
      isTimeSlotBookedA bsA' venueId date timeSlot"
    by (simp only: isTimeSlotBookedA_def array_some_iff)
next
  assume "mset bsB = mset bsB'"
  then have "set bsB = set bsB'" by (rule mset_eq_setD)
  then show "isTimeSlotBookedB bsB venueId date timeSlot =
      isTimeSlotBookedB bsB' venueId date timeSlot"
    by (simp only: isTimeSlotBookedB_def array_some_iff)
qed

theorem isTimeSlotBooked_permutation_witness:
  "mset (bookingsA oneBookingA @ [approvedBookingA]) =
     mset (approvedBookingA # bookingsA oneBookingA) \<and>
   isTimeSlotBookedA (bookingsA oneBookingA @ [approvedBookingA])
       ''auditorium'' ''2024-03-10'' ''9-10'' =
   isTimeSlotBookedA (approvedBookingA # bookingsA oneBookingA)
       ''auditorium'' ''2024-03-10'' ''9-10'' \<and>
   mset initialBookingsB = mset (rev initialBookingsB) \<and>
   isTimeSlotBookedB initialBookingsB ''2'' ''2024-01-16'' ''14:00-16:00'' =
   isTimeSlotBookedB (rev initialBookingsB) ''2'' ''2024-01-16'' ''14:00-16:00''"
proof -
  have a: "mset (bookingsA oneBookingA @ [approvedBookingA]) =
     mset (approvedBookingA # bookingsA oneBookingA)" by simp
  have b: "mset initialBookingsB = mset (rev initialBookingsB)" by simp
  from isTimeSlotBooked_permutation
         [where bsA = "bookingsA oneBookingA @ [approvedBookingA]"
            and bsA' = "approvedBookingA # bookingsA oneBookingA"
            and bsB = initialBookingsB and bsB' = "rev initialBookingsB"
            and venueId = "''auditorium''" and date = "''2024-03-10''" and timeSlot = "''9-10''"]
       isTimeSlotBooked_permutation
         [where bsA = "bookingsA oneBookingA @ [approvedBookingA]"
            and bsA' = "approvedBookingA # bookingsA oneBookingA"
            and bsB = initialBookingsB and bsB' = "rev initialBookingsB"
            and venueId = "''2''" and date = "''2024-01-16''" and timeSlot = "''14:00-16:00''"]
       a b
  show ?thesis by blast
qed

section \<open>Status changes\<close>

lemma bookingsA_handleCancelBooking:
  "bookingsA (handleCancelBooking bookingId st) =
     map (\<lambda>b. if idA b = bookingId then b\<lparr>statusA := Cancelled\<rparr> else b) (bookingsA st)"
  by (simp add: handleCancelBooking_def toast_def)

lemma bookingsB_updateBookingStatus:
  "bookingsB (updateBookingStatus bookingId status st) =
     map (\<lambda>b. if idB b = bookingId then b\<lparr>statusB := status\<rparr> else b) (bookingsB st)"
  by (simp add: updateBookingStatus_def)

lemma statusA_same: "statusA b = s \<Longrightarrow> b\<lparr>statusA := s\<rparr> = b"
  by (cases b) simp

lemma statusB_same: "statusB b = s \<Longrightarrow> b\<lparr>statusB := s\<rparr> = b"
  by (cases b) simp

text \<open>
  C3, as the code has it. \<^verbatim>\<open>updateBookingStatus\<close> has no guard: every booking with
  the given id takes the requested status whatever its status was, and the list stays
  as it is only when they all have that status already. What keeps a terminal booking
  from changing is the rendering: the Approve and Reject buttons exist on the card of a
  pending booking only, so an approved or rejected booking offers nothing to click.
\<close>

theorem updateBookingStatus_unguarded:
  "(\<forall>b \<in> set (bookingsB (updateBookingStatus bookingId status st)).
       idB b = bookingId \<longrightarrow> statusB b = status) \<and>
   ((\<forall>b \<in> set (bookingsB st). idB b = bookingId \<longrightarrow> statusB b = status) \<longrightarrow>
       updateBookingStatus bookingId status st = st) \<and>
   (statusB booking \<noteq> pending \<longrightarrow> statusButtonClick user booking status st = st)"
proof (intro conjI impI ballI)
  fix b
  assume "b \<in> set (bookingsB (updateBookingStatus bookingId status st))"
  then obtain b0 where "b = (if idB b0 = bookingId then b0\<lparr>statusB := status\<rparr> else b0)"
    unfolding bookingsB_updateBookingStatus by (rule map_if_member)
  moreover assume "idB b = bookingId"
  ultimately show "statusB b = status"
    by (simp split: if_splits)
next
  assume a: "\<forall>b \<in> set (bookingsB st). idB b = bookingId \<longrightarrow> statusB b = status"
  have "map (\<lambda>b. if idB b = bookingId then b\<lparr>statusB := status\<rparr> else b) (bookingsB st)
      = bookingsB st"
    by (rule map_if_fixed) (use a statusB_same in blast)
  then show "updateBookingStatus bookingId status st = st"
    by (simp add: updateBookingStatus_def)
next
  assume "statusB booking \<noteq> pending"
  then show "statusButtonClick user booking status st = st"
    by (simp add: statusButtonClick_def statusButtonsShown_def)
qed

theorem updateBookingStatus_unguarded_witness:
  "statusB (bookingsB (updateBookingStatus ''2'' approved initialStateB) ! 1) = approved \<and>
   updateBookingStatus ''1'' approved initialStateB = initialStateB \<and>
   statusB (bookingsB initialStateB ! 0) \<noteq> pending \<and>
   statusButtonClick (Some hodUser) (bookingsB initialStateB ! 0) approved initialStateB
     = initialStateB"
  using updateBookingStatus_unguarded
          [where bookingId = "''2''" and status = approved and st = initialStateB
             and booking = "bookingsB initialStateB ! 0" and user = "Some hodUser"]
        updateBookingStatus_unguarded
          [where bookingId = "''1''" and status = approved and st = initialStateB
             and booking = "bookingsB initialStateB ! 0" and user = "Some hodUser"]
  by (simp add: initialStateB_def initialBookingsB_def updateBookingStatus_def)

theorem updateBookingStatus_terminal_counterexample:
  "map statusB (bookingsB initialStateB) = [approved, pending] \<and>
   map statusB (bookingsB (updateBookingStatus ''1'' rejected initialStateB))
     = [rejected, pending]"
  by (simp add: updateBookingStatus_def initialStateB_def initialBookingsB_def)

text \<open>
  C4, as the code has it. \<^verbatim>\<open>handleCancelBooking\<close> has no guard either: every
  booking with the given id becomes Cancelled whatever its status was, and the list
  stays as it is only when they all are Cancelled already. The Cancel button exists on
  the card of a Pending booking only, so an Approved or Cancelled booking offers nothing
  to click.
\<close>

theorem handleCancelBooking_unguarded:
  "(\<forall>b \<in> set (bookingsA (handleCancelBooking bookingId st)).
       idA b = bookingId \<longrightarrow> statusA b = Cancelled) \<and>
   ((\<forall>b \<in> set (bookingsA st). idA b = bookingId \<longrightarrow> statusA b = Cancelled) \<longrightarrow>
       bookingsA (handleCancelBooking bookingId st) = bookingsA st) \<and>
   (statusA booking \<noteq> Pending \<longrightarrow> cancelButtonClick booking st = st)"
proof (intro conjI impI ballI)
  fix b
  assume "b \<in> set (bookingsA (handleCancelBooking bookingId st))"
  then obtain b0 where "b = (if idA b0 = bookingId then b0\<lparr>statusA := Cancelled\<rparr> else b0)"
    unfolding bookingsA_handleCancelBooking by (rule map_if_member)
  moreover assume "idA b = bookingId"
  ultimately show "statusA b = Cancelled"
    by (simp split: if_splits)
next
  assume a: "\<forall>b \<in> set (bookingsA st). idA b = bookingId \<longrightarrow> statusA b = Cancelled"
  show "bookingsA (handleCancelBooking bookingId st) = bookingsA st"
    unfolding bookingsA_handleCancelBooking
    by (rule map_if_fixed) (use a statusA_same in blast)
next
  assume "statusA booking \<noteq> Pending"
  then show "cancelButtonClick booking st = st"
    by (simp add: cancelButtonClick_def cancelButtonShown_def)
qed

theorem handleCancelBooking_unguarded_witness:
  "statusA (bookingsA (handleCancelBooking ''booking_7'' approvedStateA) ! 0) = Cancelled \<and>
   bookingsA (handleCancelBooking ''booking_8'' approvedStateA) = bookingsA approvedStateA \<and>
   statusA approvedBookingA \<noteq> Pending \<and>
   cancelButtonClick approvedBookingA approvedStateA = approvedStateA"
  using handleCancelBooking_unguarded
          [where bookingId = "''booking_7''" and st = approvedStateA
             and booking = approvedBookingA]
        handleCancelBooking_unguarded
          [where bookingId = "''booking_8''" and st = approvedStateA
             and booking = approvedBookingA]
  by (simp add: approvedStateA_def approvedBookingA_def initialStateA_def
        handleCancelBooking_def toast_def)

theorem handleCancelBooking_approved_counterexample:
  "map statusA (bookingsA approvedStateA) = [Approved] \<and>
   map statusA (bookingsA (handleCancelBooking ''booking_7'' approvedStateA)) = [Cancelled] \<and>
   bookingsA (handleCancelBooking ''booking_7'' approvedStateA) \<noteq> bookingsA approvedStateA"
  by (simp add: approvedStateA_def approvedBookingA_def initialStateA_def
        handleCancelBooking_def toast_def)

text \<open>
  C5. Cancelling keeps the length of the list; at every position the booking after the
  call has the id, venue, date, time slot, booker, department, purpose and creation
  time of the booking before it, so it is that booking with at most another status;
  and a booking with another id is not touched at all.
\<close>

theorem handleCancelBooking_frame:
  "length (bookingsA (handleCancelBooking bookingId st)) = length (bookingsA st) \<and>
   (\<forall>i < length (bookingsA st).
      (let b = bookingsA st ! i; b' = bookingsA (handleCancelBooking bookingId st) ! i in
         idA b' = idA b \<and> venueIdA b' = venueIdA b \<and> venueNameA b' = venueNameA b \<and>
         dateA b' = dateA b \<and> timeSlotA b' = timeSlotA b \<and>
         bookerNameA b' = bookerNameA b \<and> departmentA b' = departmentA b \<and>
         purposeA b' = purposeA b \<and> createdAtA b' = createdAtA b \<and>
         b' = b\<lparr>statusA := statusA b'\<rparr> \<and>
         (idA b \<noteq> bookingId \<longrightarrow> b' = b)))"
  by (simp add: bookingsA_handleCancelBooking Let_def)

theorem handleCancelBooking_frame_witness:
  "length (bookingsA oneBookingA) = 1 \<and>
   (let b = bookingsA oneBookingA ! 0;
        b' = bookingsA (handleCancelBooking ''booking_1'' oneBookingA) ! 0 in
      idA b' = idA b \<and> venueIdA b' = venueIdA b \<and> venueNameA b' = venueNameA b \<and>
      dateA b' = dateA b \<and> timeSlotA b' = timeSlotA b \<and>
      bookerNameA b' = bookerNameA b \<and> departmentA b' = departmentA b \<and>
      purposeA b' = purposeA b \<and> createdAtA b' = createdAtA b \<and>
      statusA b = Pending \<and> statusA b' = Cancelled) \<and>
   bookingsA (handleCancelBooking ''booking_2'' oneBookingA) ! 0 = bookingsA oneBookingA ! 0"
  using handleCancelBooking_frame [where bookingId = "''booking_1''" and st = oneBookingA]
        handleCancelBooking_frame [where bookingId = "''booking_2''" and st = oneBookingA]
  by (simp add: oneBookingA_def slotChosenA_def handleBookingSubmit_def purposeChange_def
        handleTimeSlotSelect_def handleDateSelect_def handleVenueSelect_def initialStateA_def
        mainAuditoriumA_def isTimeSlotBookedA_def trim_def isWhiteSpace_def toast_def
        handleCancelBooking_def Let_def)

text \<open>
  C10. A booking id that no booking of the list has: cancelling leaves the list of
  variant A as it is, and changing the status or deleting leaves the state of
  variant B as it is.
\<close>

theorem absent_id_unchanged:
  "(bookingId \<notin> set (map idA (bookingsA stA)) \<longrightarrow>
      bookingsA (handleCancelBooking bookingId stA) = bookingsA stA) \<and>
   (bookingId \<notin> set (map idB (bookingsB stB)) \<longrightarrow>
      updateBookingStatus bookingId status stB = stB \<and>
      deleteBooking bookingId stB = stB)"
proof (intro conjI impI)
  assume "bookingId \<notin> set (map idA (bookingsA stA))"
  then have "\<forall>b \<in> set (bookingsA stA). \<not> idA b = bookingId" by auto
  then show "bookingsA (handleCancelBooking bookingId stA) = bookingsA stA"
    unfolding bookingsA_handleCancelBooking by (rule map_if_absent)
next
  assume "bookingId \<notin> set (map idB (bookingsB stB))"
  then have *: "\<forall>b \<in> set (bookingsB stB). \<not> idB b = bookingId" by auto
  then have "map (\<lambda>b. if idB b = bookingId then b\<lparr>statusB := status\<rparr> else b) (bookingsB stB)
      = bookingsB stB"
    by (rule map_if_absent)
  then show "updateBookingStatus bookingId status stB = stB"
    by (simp add: updateBookingStatus_def)
  from * have "filter (\<lambda>b. idB b \<noteq> bookingId) (bookingsB stB) = bookingsB stB"
    by (intro filter_all) simp
  then show "deleteBooking bookingId stB = stB"
    by (simp add: deleteBooking_def)
qed

theorem absent_id_unchanged_witness:
  "''9'' \<notin> set (map idA (bookingsA approvedStateA)) \<and>
   bookingsA (handleCancelBooking ''9'' approvedStateA) = bookingsA approvedStateA \<and>
   ''9'' \<notin> set (map idB (bookingsB initialStateB)) \<and>
   updateBookingStatus ''9'' rejected initialStateB = initialStateB \<and>
   deleteBooking ''9'' initialStateB = initialStateB"
proof -
  have a: "''9'' \<notin> set (map idA (bookingsA approvedStateA))"
    by (simp add: approvedStateA_def approvedBookingA_def)
  have b: "''9'' \<notin> set (map idB (bookingsB initialStateB))"
    by (simp add: initialStateB_def initialBookingsB_def)
  from absent_id_unchanged
         [where bookingId = "''9''" and stA = approvedStateA and stB = initialStateB
            and status = rejected] a b
  show ?thesis by blast
qed

section \<open>The selection wizard\<close>

text \<open>
  C9, as the code has it. In variant A choosing a venue selects it, empties the date and
  the time slot and closes the booking form. In variant B choosing a venue selects it
  and opens the booking dialog.
\<close>

theorem venue_selection_effect:
  "selectedVenueA (handleVenueSelect venueA stA) = Some venueA \<and>
   selectedDateA (handleVenueSelect venueA stA) = [] \<and>
   selectedTimeSlotA (handleVenueSelect venueA stA) = [] \<and>
   showBookingFormA (handleVenueSelect venueA stA) = False \<and>
   bookingsA (handleVenueSelect venueA stA) = bookingsA stA \<and>
   selectedVenueB (handleBookVenue venueB stB) = Some venueB \<and>
   isBookingDialogOpenB (handleBookVenue venueB stB) = True \<and>
   bookingsB (handleBookVenue venueB stB) = bookingsB stB"
  by (simp add: handleVenueSelect_def handleBookVenue_def)

theorem handleBookVenue_counterexample:
  "isBookingDialogOpenB (closeDialog slotChosenB) = False \<and>
   selectedDateB (handleBookVenue mainAuditoriumB (closeDialog slotChosenB)) = ''2030-03-10'' \<and>
   selectedTimeSlotB (handleBookVenue mainAuditoriumB (closeDialog slotChosenB))
     = ''09:00-10:00'' \<and>
   isBookingDialogOpenB (handleBookVenue mainAuditoriumB (closeDialog slotChosenB)) = True"
  by (simp add: handleBookVenue_def closeDialog_def slotChosenB_def timeSlotButtonClick_def
        dateInputChange_def initialStateB_def initialBookingsB_def isTimeSlotBookedB_def
        timeSlots_def mainAuditoriumB_def)

text \<open>
  Submitting in variant A: with no venue, no date, no time slot or a purpose of white
  space only, the booking list stays as it is and a notice is shown.
\<close>

lemma handleBookingSubmit_incomplete:
  assumes "selectedVenueA st = None \<or> selectedDateA st = [] \<or> selectedTimeSlotA st = [] \<or>
           trim (form_purpose (bookingFormA st)) = []"
  shows "handleBookingSubmit newId now st = toast ''Incomplete Information'' st"
    and "bookingsA (handleBookingSubmit newId now st) = bookingsA st"
  using assms by (auto simp: handleBookingSubmit_def toast_def split: option.splits)

lemma trim_all_white:
  assumes "list_all isWhiteSpace s"
  shows "trim s = []"
proof -
  from assms have *: "dropWhile isWhiteSpace s = []"
    by (simp add: list_all_iff)
  show ?thesis unfolding trim_def * by simp
qed

text \<open>
  Submitting in variant B: with no venue, no date or no time slot the state stays as it
  is. The purpose is not looked at.
\<close>

lemma onSubmitBooking_unselected:
  assumes "selectedVenueB st = None \<or> selectedDateB st = [] \<or> selectedTimeSlotB st = []"
  shows "onSubmitBooking user newId data st = st"
  using assms by (auto simp: onSubmitBooking_def split: option.splits)

lemma onSubmitBooking_ignores_purpose:
  assumes "selectedVenueB st = Some venue" and "selectedDateB st \<noteq> []"
    and "selectedTimeSlotB st \<noteq> []"
  shows "length (bookingsB (onSubmitBooking user newId data st)) = Suc (length (bookingsB st))"
    and "purposeB (last (bookingsB (onSubmitBooking user newId data st))) = data_purpose data"
  using assms by (simp_all add: onSubmitBooking_def)

text \<open>
  C6 fails in variant B: a form whose purpose is three spaces is submitted, by the
  handler or through the submit button, and the booking is appended with that purpose.
\<close>

theorem onSubmitBooking_blank_purpose:
  "trim (data_purpose blankPurposeData) = [] \<and>
   length (bookingsB slotChosenB) = 2 \<and>
   length (bookingsB (onSubmitBooking (Some hodUser) ''1710000000000''
              blankPurposeData slotChosenB)) = 3 \<and>
   purposeB (bookingsB (onSubmitBooking (Some hodUser) ''1710000000000''
              blankPurposeData slotChosenB) ! 2) = ''   '' \<and>
   submitButtonClick (Some hodUser) ''1710000000000''
       (formInputChange blankPurposeData slotChosenB) =
     onSubmitBooking (Some hodUser) ''1710000000000'' blankPurposeData slotChosenB"
  by (simp add: onSubmitBooking_def slotChosenB_def timeSlotButtonClick_def
        dateInputChange_def handleBookVenue_def initialStateB_def initialBookingsB_def
        isTimeSlotBookedB_def timeSlots_def mainAuditoriumB_def blankPurposeData_def
        trim_def isWhiteSpace_def submitButtonClick_def formInputChange_def
        requiredFilled_def)

text \<open>
  The scenario of variant A: one booking of the auditorium on 2024-03-10, slot 9-10;
  choosing the same slot again is refused and a submission then adds nothing;
  after cancelling the booking the same slot is booked again.
\<close>

lemma scenarioA:
  "map statusA (bookingsA oneBookingA) = [Pending] \<and>
   selectedTimeSlotA (handleTimeSlotSelect ''9-10'' oneBookingA) = [] \<and>
   bookingsA (handleBookingSubmit ''booking_2'' ''2024-03-01T08:05:00.000Z''
       (purposeChange ''Board Meeting'' (handleTimeSlotSelect ''9-10'' oneBookingA)))
     = bookingsA oneBookingA \<and>
   map statusA (bookingsA (handleBookingSubmit ''booking_3'' ''2024-03-01T08:10:00.000Z''
       (purposeChange ''Board Meeting''
         (handleTimeSlotSelect ''9-10'' (handleCancelBooking ''booking_1'' oneBookingA)))))
     = [Cancelled, Pending]"
  by (simp add: oneBookingA_def slotChosenA_def handleBookingSubmit_def purposeChange_def
        handleTimeSlotSelect_def handleDateSelect_def handleVenueSelect_def initialStateA_def
        mainAuditoriumA_def isTimeSlotBookedA_def trim_def isWhiteSpace_def toast_def
        handleCancelBooking_def)

section \<open>Uniqueness of the active bookings\<close>

text \<open>
  The definition by \<open>distinct\<close> says what the words say: two active bookings at
  different positions of the list never have the same venue, date and time slot.
\<close>

lemma distinct_map_filter_pairwise:
  "distinct (map f (filter p xs)) \<longleftrightarrow>
     (\<forall>i < length xs. \<forall>j < length xs. i \<noteq> j \<and> p (xs ! i) \<and> p (xs ! j) \<longrightarrow> f (xs ! i) \<noteq> f (xs ! j))"
proof (induction xs)
  case Nil
  show ?case by simp
next
  case (Cons x xs)
  have step: "(\<forall>i < Suc (length xs). \<forall>j < Suc (length xs).
        i \<noteq> j \<and> p ((x # xs) ! i) \<and> p ((x # xs) ! j) \<longrightarrow> f ((x # xs) ! i) \<noteq> f ((x # xs) ! j))
     \<longleftrightarrow>
      (\<forall>i < length xs. \<forall>j < length xs. i \<noteq> j \<and> p (xs ! i) \<and> p (xs ! j) \<longrightarrow> f (xs ! i) \<noteq> f (xs ! j))
      \<and> (p x \<longrightarrow> (\<forall>j < length xs. p (xs ! j) \<longrightarrow> f x \<noteq> f (xs ! j)))"
    (is "?L \<longleftrightarrow> ?R1 \<and> ?R2")
  proof
    assume L: ?L
    have ?R1
    proof (intro allI impI)
      fix i j assume "i < length xs" "j < length xs" "i \<noteq> j \<and> p (xs ! i) \<and> p (xs ! j)"
      with L [rule_format, of "Suc i" "Suc j"] show "f (xs ! i) \<noteq> f (xs ! j)" by simp
    qed
    moreover have ?R2
    proof (intro allI impI)
      fix j assume "p x" "j < length xs" "p (xs ! j)"
      with L [rule_format, of 0 "Suc j"] show "f x \<noteq> f (xs ! j)" by simp
    qed
    ultimately show "?R1 \<and> ?R2" ..
  next
    assume R: "?R1 \<and> ?R2"
    show ?L
    proof (intro allI impI)
      fix i j
      assume ij: "i < Suc (length xs)" "j < Suc (length xs)"
        and c: "i \<noteq> j \<and> p ((x # xs) ! i) \<and> p ((x # xs) ! j)"
      show "f ((x # xs) ! i) \<noteq> f ((x # xs) ! j)"
      proof (cases i)
        case 0
        with c obtain j' where j': "j = Suc j'" by (cases j) auto
        with 0 ij c R show ?thesis by auto
      next
        case (Suc i')
        show ?thesis
        proof (cases j)
          case 0
          with Suc ij c R have "f x \<noteq> f (xs ! i')" by auto
          with 0 Suc show ?thesis by auto
        next
          case (Suc j')
          with \<open>i = Suc i'\<close> ij c R show ?thesis by auto
        qed
      qed
    qed
  qed
  have mem: "f x \<in> f ` {y \<in> set xs. p y} \<longleftrightarrow> (\<exists>j < length xs. p (xs ! j) \<and> f x = f (xs ! j))"
    by (auto simp: in_set_conv_nth image_iff)
  show ?case
    using Cons.IH step mem by (cases "p x") auto
qed

lemma uniqueActiveA_pairwise:
  "uniqueActiveA bs \<longleftrightarrow>
     (\<forall>i < length bs. \<forall>j < length bs.
        i \<noteq> j \<and> statusA (bs ! i) \<noteq> Cancelled \<and> statusA (bs ! j) \<noteq> Cancelled \<longrightarrow>
        (venueIdA (bs ! i), dateA (bs ! i), timeSlotA (bs ! i)) \<noteq>
        (venueIdA (bs ! j), dateA (bs ! j), timeSlotA (bs ! j)))"
  unfolding uniqueActiveA_def distinct_map_filter_pairwise activeA_def slotOfA_def ..

lemma uniqueActiveB_pairwise:
  "uniqueActiveB bs \<longleftrightarrow>
     (\<forall>i < length bs. \<forall>j < length bs.
        i \<noteq> j \<and> statusB (bs ! i) \<noteq> rejected \<and> statusB (bs ! j) \<noteq> rejected \<longrightarrow>
        (venueIdB (bs ! i), dateB (bs ! i), timeSlotB (bs ! i)) \<noteq>
        (venueIdB (bs ! j), dateB (bs ! j), timeSlotB (bs ! j)))"
  unfolding uniqueActiveB_def distinct_map_filter_pairwise activeB_def slotOfB_def ..
subsection \<open>Variant A keeps the active bookings unique\<close>

lemma isTimeSlotBookedA_slot:
  "isTimeSlotBookedA bs venueId date timeSlot \<longleftrightarrow>
     (venueId, date, timeSlot) \<in> set (map slotOfA (filter activeA bs))"
proof -
  have "(\<exists>b \<in> set bs. venueIdA b = venueId \<and> dateA b = date \<and> timeSlotA b = timeSlot \<and>
           statusA b \<noteq> Cancelled) \<longleftrightarrow>
        (\<exists>b \<in> set (filter activeA bs). slotOfA b = (venueId, date, timeSlot))"
    by (induction bs) (simp_all add: activeA_def slotOfA_def)
  then show ?thesis
    unfolding isTimeSlotBookedA_def array_some_iff by (simp only: set_map image_iff) metis
qed

lemma cancel_slots:
  "map slotOfA (filter activeA
      (map (\<lambda>b. if idA b = bookingId then b\<lparr>statusA := Cancelled\<rparr> else b) bs)) =
   map slotOfA (filter (\<lambda>b. idA b \<noteq> bookingId) (filter activeA bs))"
  by (induction bs) (simp_all add: activeA_def slotOfA_def)

lemma uniqueActiveA_cancel:
  assumes "uniqueActiveA (bookingsA st)"
  shows "uniqueActiveA (bookingsA (handleCancelBooking bookingId st))"
  using assms
  unfolding uniqueActiveA_def bookingsA_handleCancelBooking cancel_slots
  by (rule distinct_map_filter)

lemma isTimeSlotBookedA_cancel:
  assumes "isTimeSlotBookedA (bookingsA (handleCancelBooking bookingId st)) venueId date timeSlot"
  shows "isTimeSlotBookedA (bookingsA st) venueId date timeSlot"
  using assms
  unfolding isTimeSlotBookedA_slot bookingsA_handleCancelBooking cancel_slots
  by auto

lemma uniqueActiveA_append:
  assumes "uniqueActiveA bs" and "activeA b"
    and "\<not> isTimeSlotBookedA bs (venueIdA b) (dateA b) (timeSlotA b)"
  shows "uniqueActiveA (bs @ [b])"
  using assms unfolding isTimeSlotBookedA_slot uniqueActiveA_def
  by (simp add: slotOfA_def)

lemma wizardInvariantA_cong:
  assumes "wizardInvariantA st"
    and "bookingsA st' = bookingsA st" and "selectedVenueA st' = selectedVenueA st"
    and "selectedDateA st' = selectedDateA st" and "selectedTimeSlotA st' = selectedTimeSlotA st"
  shows "wizardInvariantA st'"
  using assms(1) unfolding wizardInvariantA_def chosenSlotFreeA_def assms(2-5) .

lemma wizardInvariantA_no_slot:
  assumes "uniqueActiveA (bookingsA st)" and "selectedTimeSlotA st = []"
  shows "wizardInvariantA st"
  using assms by (simp add: wizardInvariantA_def chosenSlotFreeA_def)

lemma wizardInvariantA_initial: "wizardInvariantA initialStateA"
  by (simp add: wizardInvariantA_def chosenSlotFreeA_def uniqueActiveA_def initialStateA_def)

lemma wizardInvariantA_timeSlotSelect:
  assumes "wizardInvariantA st"
  shows "wizardInvariantA (handleTimeSlotSelect timeSlotId st)"
proof (cases "selectedVenueA st")
  case None
  then show ?thesis using assms by (simp add: handleTimeSlotSelect_def)
next
  case (Some venue)
  show ?thesis
  proof (cases "selectedDateA st = [] \<or>
      isTimeSlotBookedA (bookingsA st) (venue_idA venue) (selectedDateA st) timeSlotId")
    case True
    with Some have "handleTimeSlotSelect timeSlotId st = st \<or>
        handleTimeSlotSelect timeSlotId st = toast ''Time Slot Unavailable'' st"
      by (auto simp: handleTimeSlotSelect_def)
    then show ?thesis
      using assms by (auto intro: wizardInvariantA_cong simp: toast_def)
  next
    case False
    with Some assms show ?thesis
      by (simp add: handleTimeSlotSelect_def wizardInvariantA_def chosenSlotFreeA_def)
  qed
qed

lemma wizardInvariantA_submit:
  assumes "wizardInvariantA st"
  shows "wizardInvariantA (handleBookingSubmit newId now st)"
proof (cases "selectedVenueA st = None \<or> selectedDateA st = [] \<or> selectedTimeSlotA st = [] \<or>
           trim (form_purpose (bookingFormA st)) = []")
  case True
  then have "handleBookingSubmit newId now st = toast ''Incomplete Information'' st"
    by (rule handleBookingSubmit_incomplete)
  then show ?thesis
    using assms by (auto intro: wizardInvariantA_cong simp: toast_def)
next
  case False
  then obtain venue where v: "selectedVenueA st = Some venue" by auto
  define b where "b = \<lparr> idA = newId, venueIdA = venue_idA venue, venueNameA = venue_nameA venue,
      dateA = selectedDateA st, timeSlotA = selectedTimeSlotA st,
      bookerNameA = form_bookerName (bookingFormA st),
      departmentA = form_department (bookingFormA st),
      purposeA = form_purpose (bookingFormA st), statusA = Pending, createdAtA = now \<rparr>"
  have bs: "bookingsA (handleBookingSubmit newId now st) = bookingsA st @ [b]"
    and slot: "selectedTimeSlotA (handleBookingSubmit newId now st) = []"
    using False v by (simp_all add: handleBookingSubmit_def toast_def b_def)
  from assms False v
  have free: "\<not> isTimeSlotBookedA (bookingsA st) (venueIdA b) (dateA b) (timeSlotA b)"
    by (simp add: wizardInvariantA_def chosenSlotFreeA_def b_def)
  have "activeA b" by (simp add: activeA_def b_def)
  with assms free have "uniqueActiveA (bookingsA st @ [b])"
    by (intro uniqueActiveA_append) (simp_all add: wizardInvariantA_def)
  with bs slot show ?thesis
    by (intro wizardInvariantA_no_slot) simp_all
qed

lemma wizardInvariantA_cancel:
  assumes "wizardInvariantA st"
  shows "wizardInvariantA (handleCancelBooking bookingId st)"
proof -
  have sel: "selectedVenueA (handleCancelBooking bookingId st) = selectedVenueA st"
    "selectedDateA (handleCancelBooking bookingId st) = selectedDateA st"
    "selectedTimeSlotA (handleCancelBooking bookingId st) = selectedTimeSlotA st"
    by (simp_all add: handleCancelBooking_def toast_def)
  from assms have "uniqueActiveA (bookingsA (handleCancelBooking bookingId st))"
    by (simp add: wizardInvariantA_def uniqueActiveA_cancel)
  moreover from assms have "chosenSlotFreeA (handleCancelBooking bookingId st)"
    unfolding wizardInvariantA_def chosenSlotFreeA_def sel
    by (auto split: option.splits dest: isTimeSlotBookedA_cancel)
  ultimately show ?thesis by (simp add: wizardInvariantA_def)
qed

lemma reachableA_wizardInvariantA:
  assumes "reachableA st"
  shows "wizardInvariantA st"
  using assms
proof (induction rule: reachableA.induct)
  case initialA
  show ?case by (rule wizardInvariantA_initial)
next
  case (venueSelectA st venue)
  then show ?case
    by (intro wizardInvariantA_no_slot) (simp_all add: handleVenueSelect_def wizardInvariantA_def)
next
  case (dateSelectA st dateStr)
  then show ?case
    by (intro wizardInvariantA_no_slot) (simp_all add: handleDateSelect_def wizardInvariantA_def)
next
  case (timeSlotSelectA st timeSlotId)
  then show ?case by (simp add: wizardInvariantA_timeSlotSelect)
next
  case (bookerNameA st v)
  then show ?case by (auto intro: wizardInvariantA_cong simp: bookerNameChange_def)
next
  case (departmentA st v)
  then show ?case by (auto intro: wizardInvariantA_cong simp: departmentChange_def)
next
  case (purposeA st v)
  then show ?case by (auto intro: wizardInvariantA_cong simp: purposeChange_def)
next
  case (closeFormA st)
  then show ?case by (auto intro: wizardInvariantA_cong simp: closeBookingForm_def)
next
  case (submitA st newId now)
  then show ?case by (simp add: wizardInvariantA_submit)
next
  case (cancelA st bookingId)
  then show ?case by (simp add: wizardInvariantA_cancel)
next
  case (reloadedA st)
  then show ?case
    by (intro wizardInvariantA_no_slot)
       (simp_all add: reloadA_def initialStateA_def wizardInvariantA_def)
qed

text \<open>
  In variant A every state the handlers reach holds a conflict free list: the slot is
  checked when it is chosen, every handler that changes the venue or the date clears
  it, and cancelling only makes bookings inactive.
\<close>

theorem reachableA_uniqueActive:
  assumes "reachableA st"
  shows "uniqueActiveA (bookingsA st)"
  using reachableA_wizardInvariantA [OF assms] by (simp add: wizardInvariantA_def)

subsection \<open>Variant B does not\<close>

text \<open>
  C1 fails in variant B. The dialog checks a slot against the date shown when the slot
  is clicked, and neither a later change of the date nor the submit handler looks
  again: two clicks on Submit leave two pending bookings of the auditorium on
  2030-03-10, 09:00-10:00.
\<close>

theorem doubleBookingB_reachable:
  "reachableB (Some hodUser) doubleBookingB \<and>
   map (\<lambda>b. (slotOfB b, statusB b)) (bookingsB doubleBookingB) =
     [((''1'', ''2024-01-15'', ''09:00-11:00''), approved),
      ((''2'', ''2024-01-16'', ''14:00-16:00''), pending),
      ((''1'', ''2030-03-10'', ''09:00-10:00''), pending),
      ((''1'', ''2030-03-10'', ''09:00-10:00''), pending)] \<and>
   \<not> uniqueActiveB (bookingsB doubleBookingB)"
proof (intro conjI)
  show "reachableB (Some hodUser) doubleBookingB"
    unfolding doubleBookingB_def firstBookingB_def slotChosenB_def
    by (intro reachableB.intros) (simp_all add: venuesB_def)
  show bs: "map (\<lambda>b. (slotOfB b, statusB b)) (bookingsB doubleBookingB) =
     [((''1'', ''2024-01-15'', ''09:00-11:00''), approved),
      ((''2'', ''2024-01-16'', ''14:00-16:00''), pending),
      ((''1'', ''2030-03-10'', ''09:00-10:00''), pending),
      ((''1'', ''2030-03-10'', ''09:00-10:00''), pending)]"
    by (simp add: doubleBookingB_def firstBookingB_def slotChosenB_def submitButtonClick_def
        onSubmitBooking_def formInputChange_def dateInputChange_def timeSlotButtonClick_def
        handleBookVenue_def initialStateB_def initialBookingsB_def isTimeSlotBookedB_def
        timeSlots_def mainAuditoriumB_def meetingData_def requiredFilled_def slotOfB_def)
  have "map slotOfB (filter activeB (bookingsB doubleBookingB)) =
      map fst (filter (\<lambda>p. snd p \<noteq> rejected)
        (map (\<lambda>b. (slotOfB b, statusB b)) (bookingsB doubleBookingB)))"
    by (simp add: filter_map comp_def activeB_def [abs_def])
  then show "\<not> uniqueActiveB (bookingsB doubleBookingB)"
    unfolding uniqueActiveB_def bs by simp
qed

section \<open>Loading the bookings at startup\<close>

lemma lex_first_token:
  assumes "dropWhile isJSONWhiteSpace raw = c # cs" and "c \<notin> set valueStarts"
    and "lex LStart raw = Some toks"
  shows "\<exists>t ts. toks = t # ts \<and> t \<in> {TRBrace, TRBracket, TComma, TColon}"
  using assms
proof (induction raw arbitrary: toks)
  case Nil
  then show ?case by simp
next
  case (Cons x xs)
  show ?case
  proof (cases "isJSONWhiteSpace x")
    case True
    with Cons.prems have "dropWhile isJSONWhiteSpace xs = c # cs"
      and "lex LStart xs = Some toks"
      by (auto simp: startStep_def split: option.splits)
    with Cons.IH Cons.prems(2) show ?thesis by blast
  next
    case False
    with Cons.prems(1) have "x = c" by simp
    with False Cons.prems(2,3) show ?thesis
      by (auto simp: startStep_def valueStarts_def isDigit_def split: if_splits option.splits)
  qed
qed

lemma lex_blank:
  assumes "dropWhile isJSONWhiteSpace raw = []"
  shows "lex LStart raw = Some []"
  using assms
proof (induction raw)
  case Nil
  show ?case by simp
next
  case (Cons x xs)
  then have "isJSONWhiteSpace x" and "dropWhile isJSONWhiteSpace xs = []"
    by (auto split: if_splits)
  with Cons.IH show ?case by (simp add: startStep_def)
qed

lemma JSON_parse_bad_start:
  assumes "\<not> startsLikeJSON raw"
  shows "JSON_parse raw = Inl SyntaxError"
proof (cases "dropWhile isJSONWhiteSpace raw")
  case Nil
  then have "lex LStart raw = Some []" by (rule lex_blank)
  then show ?thesis by (simp add: JSON_parse_def)
next
  case (Cons c cs)
  with assms have c: "c \<notin> set valueStarts" by (simp add: startsLikeJSON_def)
  show ?thesis
  proof (cases "lex LStart raw")
    case None
    then show ?thesis by (simp add: JSON_parse_def)
  next
    case (Some toks)
    with lex_first_token [OF Cons c] obtain t ts
      where "toks = t # ts" and "t \<in> {TRBrace, TRBracket, TComma, TColon}" by blast
    with Some show ?thesis by (auto simp: JSON_parse_def)
  qed
qed

text \<open>
  C7, as the code has it. An absent value and the empty string leave the bookings as
  they are, the empty list at startup. Any other text goes to \<^verbatim>\<open>JSON.parse\<close>
  unguarded: the outcome of the load is the outcome of the parse, be it the exception
  or a value of any shape; and a text that does not even start like JSON makes the load
  throw.
\<close>

theorem loadBookings_outcome:
  "loadBookings None bookings = Inr bookings \<and>
   loadBookings (Some []) bookings = Inr bookings \<and>
   (raw \<noteq> [] \<longrightarrow> loadBookings (Some raw) bookings = JSON_parse raw) \<and>
   (raw \<noteq> [] \<and> \<not> startsLikeJSON raw \<longrightarrow>
      loadBookings (Some raw) bookings = Inl SyntaxError)"
proof (intro conjI impI)
  show "loadBookings None bookings = Inr bookings"
    and "loadBookings (Some []) bookings = Inr bookings"
    by (simp_all add: loadBookings_def)
  show parse: "loadBookings (Some raw) bookings = JSON_parse raw" if "raw \<noteq> []"
    using that by (simp add: loadBookings_def split: sum.splits)
  show "loadBookings (Some raw) bookings = Inl SyntaxError"
    if "raw \<noteq> [] \<and> \<not> startsLikeJSON raw"
    using that parse JSON_parse_bad_start by simp
qed

lemma JSON_parse_savedApprovedA:
  "JSON_parse savedApprovedA = Inr (bookingsValue [approvedBookingA])"
  by (simp add: savedApprovedA_def JSON_parse_def startStep_def isJSONWhiteSpace_def
        isDigit_def endNumber_def bookingsValue_def bookingValue_def statusValue_def
        codeUnits_def approvedBookingA_def MOCK_USER_name_def MOCK_USER_department_def)

theorem loadBookings_outcome_witness:
  "loadBookings None (bookingsValue []) = Inr (JArray []) \<and>
   loadBookings (Some []) (bookingsValue []) = Inr (JArray []) \<and>
   savedApprovedA \<noteq> [] \<and>
   loadBookings (Some savedApprovedA) (bookingsValue []) =
     Inr (bookingsValue [approvedBookingA]) \<and>
   \<not> startsLikeJSON ''undefined'' \<and>
   loadBookings (Some ''undefined'') (bookingsValue []) = Inl SyntaxError"
proof -
  have a: "savedApprovedA \<noteq> []" by (simp add: savedApprovedA_def)
  have b: "\<not> startsLikeJSON ''undefined''"
    by (simp add: startsLikeJSON_def isJSONWhiteSpace_def valueStarts_def)
  have c: "bookingsValue [] = JArray []" by (simp add: bookingsValue_def)
  have d: "loadBookings (Some savedApprovedA) (bookingsValue []) =
      Inr (bookingsValue [approvedBookingA])"
    using loadBookings_outcome [where raw = savedApprovedA and bookings = "bookingsValue []"] a
    by (simp add: JSON_parse_savedApprovedA)
  have e: "loadBookings (Some ''undefined'') (bookingsValue []) = Inl SyntaxError"
    using loadBookings_outcome [where raw = "''undefined''" and bookings = "bookingsValue []"] b
    by blast
  have f: "loadBookings None (bookingsValue []) = Inr (JArray [])"
    "loadBookings (Some []) (bookingsValue []) = Inr (JArray [])"
    using loadBookings_outcome [where raw = "[]" and bookings = "bookingsValue []"]
    by (simp_all add: c)
  from a b d e f show ?thesis by blast
qed

theorem loadBookings_malformed_counterexample:
  "loadBookings (Some ''not json'') (bookingsValue []) = Inl SyntaxError \<and>
   loadBookings (Some ''{}'') (bookingsValue []) = Inr (JObject []) \<and>
   JObject [] \<noteq> bookingsValue []"
  by (simp add: loadBookings_def JSON_parse_def startStep_def isJSONWhiteSpace_def
        isDigit_def bookingsValue_def)


end
